theory Spec2Isabelle
  imports Main "HOL-Library.AList" "HOL-Library.Char_ord" "HOL-Library.List_Lexorder"
begin

section \<open>Python string operations\<close>

text \<open>
  Strings are lists of 8-bit characters, so the model covers ASCII text: the fixture tree,
  its sidecar keys and the fork names are all ASCII. Each function below is the Python
  \<^verbatim>\<open>str\<close> method of the same name, restricted to the way the two scripts call it.
\<close>

definition startswith :: "string \<Rightarrow> string \<Rightarrow> bool" where
  "startswith s p = (take (length p) s = p)"

definition endswith :: "string \<Rightarrow> string \<Rightarrow> bool" where
  "endswith s p = (length p \<le> length s \<and> drop (length s - length p) s = p)"

text \<open>\<^verbatim>\<open>p in s\<close>: \<open>p\<close> occurs in \<open>s\<close> as a contiguous substring.\<close>

fun contains :: "string \<Rightarrow> string \<Rightarrow> bool" where
  "contains [] p = (p = [])"
| "contains (c # cs) p = (startswith (c # cs) p \<or> contains cs p)"

text \<open>\<^verbatim>\<open>s.split(sep)\<close> for a one-character separator; the result is never empty.\<close>

fun split_on :: "char \<Rightarrow> string \<Rightarrow> string list" where
  "split_on sep [] = [[]]"
| "split_on sep (c # cs) =
     (if c = sep then [] # split_on sep cs
      else (case split_on sep cs of
              [] \<Rightarrow> [[c]]
            | w # ws \<Rightarrow> (c # w) # ws))"

text \<open>\<^verbatim>\<open>sep.join(xs)\<close>.\<close>

fun join :: "string \<Rightarrow> string list \<Rightarrow> string" where
  "join sep [] = []"
| "join sep [x] = x"
| "join sep (x # y # ys) = x @ sep @ join sep (y # ys)"

definition lower_char :: "char \<Rightarrow> char" where
  "lower_char c =
     (case map_of (zip ''ABCDEFGHIJKLMNOPQRSTUVWXYZ'' ''abcdefghijklmnopqrstuvwxyz'') c of
        None \<Rightarrow> c
      | Some d \<Rightarrow> d)"

definition upper_char :: "char \<Rightarrow> char" where
  "upper_char c =
     (case map_of (zip ''abcdefghijklmnopqrstuvwxyz'' ''ABCDEFGHIJKLMNOPQRSTUVWXYZ'') c of
        None \<Rightarrow> c
      | Some d \<Rightarrow> d)"

definition lower :: "string \<Rightarrow> string" where
  "lower s = map lower_char s"

definition upper :: "string \<Rightarrow> string" where
  "upper s = map upper_char s"

text \<open>\<^verbatim>\<open>s.capitalize()\<close>: first character upper case, the rest lower case.\<close>

definition capitalize :: "string \<Rightarrow> string" where
  "capitalize s = (case s of [] \<Rightarrow> [] | c # cs \<Rightarrow> upper_char c # lower cs)"

text \<open>
  The characters \<^verbatim>\<open>str.isspace\<close> accepts below code point 128: space, tab, line feed,
  vertical tab, form feed, carriage return and the four separators 0x1C to 0x1F.
\<close>

definition is_space :: "char \<Rightarrow> bool" where
  "is_space c =
     (c \<in> set [CHR '' '', CHR 0x09, CHR 0x0A, CHR 0x0B, CHR 0x0C, CHR 0x0D,
                CHR 0x1C, CHR 0x1D, CHR 0x1E, CHR 0x1F])"

definition strip :: "string \<Rightarrow> string" where
  "strip s = rev (dropWhile is_space (rev (dropWhile is_space s)))"

text \<open>\<^verbatim>\<open>s.rstrip(chars)\<close>.\<close>

definition rstrip :: "string \<Rightarrow> string \<Rightarrow> string" where
  "rstrip chars s = rev (dropWhile (\<lambda>c. c \<in> set chars) (rev s))"

definition digit_val :: "char \<Rightarrow> nat option" where
  "digit_val c = map_of (zip ''0123456789'' [0, 1, 2, 3, 4, 5, 6, 7, 8, 9]) c"

fun digits_val :: "nat \<Rightarrow> string \<Rightarrow> nat option" where
  "digits_val acc [] = Some acc"
| "digits_val acc (c # cs) =
     (case digit_val c of
        None \<Rightarrow> None
      | Some d \<Rightarrow> digits_val (10 * acc + d) cs)"

definition nat_of_digits :: "string \<Rightarrow> nat option" where
  "nat_of_digits s = (if s = [] then None else digits_val 0 s)"

text \<open>
  \<^verbatim>\<open>int(s)\<close> in base ten: surrounding white space is dropped, one sign is allowed, at
  least one digit is required. \<open>None\<close> stands for the \<^verbatim>\<open>ValueError\<close>. The scripts
  only convert pieces obtained by splitting at an underscore, so the digit-group
  underscores \<^verbatim>\<open>int\<close> would accept never reach it.
\<close>

definition py_int :: "string \<Rightarrow> int option" where
  "py_int s =
     (case strip s of
        [] \<Rightarrow> None
      | c # cs \<Rightarrow>
          if c = CHR ''-'' then map_option (\<lambda>n. - int n) (nat_of_digits cs)
          else if c = CHR ''+'' then map_option int (nat_of_digits cs)
          else map_option int (nat_of_digits (c # cs)))"

section \<open>The completeness audit: \<^verbatim>\<open>check_missing_yamls.py\<close>\<close>

text \<open>
  The directory tree the audit walks. A directory lists its entries by name, in the
  order the operating system reports them.
\<close>

datatype fs = File | Dir "(string \<times> fs) list"

definition is_file :: "string \<times> fs \<Rightarrow> bool" where
  "is_file e = (snd e = File)"

text \<open>
  \<^verbatim>\<open>os.walk(top)\<close>, top down: one triple (directory, sub-directory names, file names)
  per directory, a directory before its sub-directories. Walking something that is not
  a directory yields nothing. The directory is kept as its path segments below the
  root of the audit.
\<close>

fun walk :: "string list \<Rightarrow> fs \<Rightarrow> (string list \<times> string list \<times> string list) list" where
  "walk root File = []"
| "walk root (Dir es) =
     (root, map fst (filter (\<lambda>e. \<not> is_file e) es), map fst (filter is_file es))
       # concat (map (\<lambda>e. walk (root @ [fst e]) (snd e)) (filter (\<lambda>e. \<not> is_file e) es))"

text \<open>The entry of a directory with a given name, as a path look-up finds it.\<close>

definition child :: "fs \<Rightarrow> string \<Rightarrow> fs option" where
  "child t name = (case t of File \<Rightarrow> None | Dir es \<Rightarrow> map_of es name)"

text \<open>
  The counters and collections of \<^verbatim>\<open>check_missing_yamls\<close>. The
  \<^verbatim>\<open>defaultdict(int)\<close> is an association list in insertion order; a key that is not
  listed counts zero.
\<close>

record report =
  total_ssz :: nat
  total_yaml :: nat
  missing_count :: nat
  missing_by_test_type :: "(string \<times> nat) list"
  missing_files :: "string list"

definition empty_report :: report where
  "empty_report = \<lparr>total_ssz = 0, total_yaml = 0, missing_count = 0,
                    missing_by_test_type = [], missing_files = []\<rparr>"

definition count_of :: "(string \<times> nat) list \<Rightarrow> string \<Rightarrow> nat" where
  "count_of d k = (case map_of d k of None \<Rightarrow> 0 | Some n \<Rightarrow> n)"

text \<open>\<^verbatim>\<open>d[k] += 1\<close> on the \<^verbatim>\<open>defaultdict(int)\<close>.\<close>

definition increment :: "string \<Rightarrow> (string \<times> nat) list \<Rightarrow> (string \<times> nat) list" where
  "increment k d = AList.update k (count_of d k + 1) d"

definition is_binary :: "string \<Rightarrow> bool" where
  "is_binary file = (endswith file ''.ssz_snappy'' \<and> \<not> endswith file ''.ssz_snappy.yaml'')"

text \<open>
  The body of the innermost loop, for one file name of one directory. \<open>root\<close> is the
  directory's path below the tests directory, so \<open>root @ [file]\<close> is
  \<^verbatim>\<open>ssz_file.relative_to(tests_dir).parts\<close>; \<open>names\<close> are all entries of the
  directory, which is what \<^verbatim>\<open>yaml_file.exists()\<close> looks at.
\<close>

definition scan_file :: "string list \<Rightarrow> string list \<Rightarrow> report \<Rightarrow> string \<Rightarrow> report" where
  "scan_file root names r file =
     (if is_binary file then
        let r1 = r\<lparr>total_ssz := total_ssz r + 1\<rparr> in
        if file @ ''.yaml'' \<in> set names then r1\<lparr>total_yaml := total_yaml r1 + 1\<rparr>
        else
          let r2 = r1\<lparr>missing_count := missing_count r1 + 1\<rparr>;
              parts = root @ [file]
          in if length parts \<ge> 4 then
               r2\<lparr>missing_by_test_type := increment (join ''/'' (take 4 parts)) (missing_by_test_type r2),
                  missing_files := missing_files r2 @ [join ''/'' parts]\<rparr>
             else r2
      else r)"

definition scan_dir :: "report \<Rightarrow> string list \<times> string list \<times> string list \<Rightarrow> report" where
  "scan_dir r w = (case w of (root, dirs, files) \<Rightarrow> foldl (scan_file root (dirs @ files)) r files)"

definition scan_preset :: "fs \<Rightarrow> report \<Rightarrow> string \<Rightarrow> report" where
  "scan_preset tests_dir r preset =
     (case child tests_dir preset of
        None \<Rightarrow> r
      | Some t \<Rightarrow> foldl scan_dir r (walk [preset] t))"

definition check_missing_yamls :: "fs \<Rightarrow> report" where
  "check_missing_yamls tests_dir = foldl (scan_preset tests_dir) empty_report [''minimal'', ''mainnet'']"

text \<open>The list of missing paths as \<^verbatim>\<open>main\<close> prints it: \<^verbatim>\<open>sorted(results['missing_files'])\<close>.\<close>

definition printed_missing_files :: "report \<Rightarrow> string list" where
  "printed_missing_files r = sort (missing_files r)"

text \<open>
  The audit in the words of its specification. \<open>binary_fixtures\<close> lists every binary
  fixture under the two preset subtrees, in the order of the walk, by its path segments
  relative to the root and with the answer to "does its companion exist?";
  \<open>lacking\<close> keeps the paths of those without a companion.
\<close>

definition dir_fixtures :: "string list \<times> string list \<times> string list \<Rightarrow> (string list \<times> bool) list" where
  "dir_fixtures w =
     (case w of (root, dirs, files) \<Rightarrow>
        map (\<lambda>f. (root @ [f], f @ ''.yaml'' \<in> set (dirs @ files))) (filter is_binary files))"

definition preset_fixtures :: "fs \<Rightarrow> string \<Rightarrow> (string list \<times> bool) list" where
  "preset_fixtures tests_dir preset =
     (case child tests_dir preset of
        None \<Rightarrow> []
      | Some t \<Rightarrow> concat (map dir_fixtures (walk [preset] t)))"

definition binary_fixtures :: "fs \<Rightarrow> (string list \<times> bool) list" where
  "binary_fixtures tests_dir = concat (map (preset_fixtures tests_dir) [''minimal'', ''mainnet''])"

definition lacking :: "fs \<Rightarrow> string list list" where
  "lacking tests_dir = map fst (filter (\<lambda>x. \<not> snd x) (binary_fixtures tests_dir))"

text \<open>The four-segment category key of a relative path.\<close>

definition category_key :: "string list \<Rightarrow> string" where
  "category_key parts = join ''/'' (take 4 parts)"

text \<open>
  What one binary fixture, given as a pair of \<open>binary_fixtures\<close>, does to the report.
  It is the binary branch of \<open>scan_file\<close> and serves to relate the three nested loops
  to the list of fixtures.
\<close>

definition tally :: "report \<Rightarrow> string list \<times> bool \<Rightarrow> report" where
  "tally r x =
     (let r1 = r\<lparr>total_ssz := total_ssz r + 1\<rparr> in
      if snd x then r1\<lparr>total_yaml := total_yaml r1 + 1\<rparr>
      else
        let r2 = r1\<lparr>missing_count := missing_count r1 + 1\<rparr>
        in if length (fst x) \<ge> 4 then
             r2\<lparr>missing_by_test_type := increment (join ''/'' (take 4 (fst x))) (missing_by_test_type r2),
                missing_files := missing_files r2 @ [join ''/'' (fst x)]\<rparr>
           else r2)"

section \<open>Sidecar files, errors and the log of \<^verbatim>\<open>deserialize_ssz.py\<close>\<close>

text \<open>
  What \<^verbatim>\<open>yaml.safe_load\<close> returns: null, booleans, integers, strings, sequences and
  mappings (floating-point scalars are left out). A mapping is kept as the association
  list of its string keys; only string keys are ever looked up.
\<close>

datatype yaml = YNull | YBool bool | YInt int | YStr string | YSeq "yaml list" | YMap "(string \<times> yaml) list"

text \<open>
  A sidecar file as the script meets it: absent (\<^verbatim>\<open>exists()\<close> is false), present but
  rejected by the YAML parser (\<^verbatim>\<open>yaml.safe_load\<close> raises \<^verbatim>\<open>yaml.YAMLError\<close>), or loaded.
  The file system is a function from path segments to that outcome.
\<close>

datatype sidecar = Missing | Malformed | Loaded yaml

type_synonym files = "string list \<Rightarrow> sidecar"

text \<open>
  The exceptions that leave the script's functions. \<^verbatim>\<open>YAMLError\<close> derives from
  \<^verbatim>\<open>Exception\<close> directly, so no \<^verbatim>\<open>except (ValueError, IndexError)\<close> catches it, and
  neither \<^verbatim>\<open>AttributeError\<close> nor \<^verbatim>\<open>TypeError\<close> is caught there.
\<close>

datatype error =
    ValueError string
  | AttributeError string
  | TypeError string
  | YAMLError
  | ImportError string
  | DecodeError string

text \<open>One constructor for each \<^verbatim>\<open>print\<close> of \<^verbatim>\<open>parse_ssz_path\<close>, with the data it shows.\<close>

datatype event =
    Fork_test_previous string string
  | Warning_no_previous_fork string
  | Transition_pre_fork string string
  | Warning_no_previous_of_post_fork string
  | Warning_meta_not_found string
  | Transition_block_pre_fork int yaml string
  | Warning_no_previous_for_block string
  | Transition_block_post_fork int yaml string
  | Warning_fork_block_not_found string
  | Warning_block_index string
  | Light_client_slot string string int int string string
  | Warning_slot string
  | Light_client_name string string string string

text \<open>The messages that start with \<^verbatim>\<open>Warning:\<close>.\<close>

fun is_warning :: "event \<Rightarrow> bool" where
  "is_warning (Warning_no_previous_fork _) = True"
| "is_warning (Warning_no_previous_of_post_fork _) = True"
| "is_warning (Warning_meta_not_found _) = True"
| "is_warning (Warning_no_previous_for_block _) = True"
| "is_warning (Warning_fork_block_not_found _) = True"
| "is_warning (Warning_block_index _) = True"
| "is_warning (Warning_slot _) = True"
| "is_warning _ = False"

text \<open>\<^verbatim>\<open>d.get(k, default)\<close> on a loaded document: only a mapping has \<^verbatim>\<open>get\<close>.\<close>

definition dict_get :: "yaml \<Rightarrow> string \<Rightarrow> yaml \<Rightarrow> error + yaml" where
  "dict_get d k dflt =
     (case d of
        YMap m \<Rightarrow> Inr (case map_of m k of None \<Rightarrow> dflt | Some v \<Rightarrow> v)
      | _ \<Rightarrow> Inl (AttributeError ''get''))"

text \<open>\<^verbatim>\<open>v.lower()\<close> on a loaded value: only a string has \<^verbatim>\<open>lower\<close>.\<close>

definition str_lower :: "yaml \<Rightarrow> error + string" where
  "str_lower v = (case v of YStr s \<Rightarrow> Inr (lower s) | _ \<Rightarrow> Inl (AttributeError ''lower''))"

text \<open>
  The number a loaded value stands for in a comparison with an \<^verbatim>\<open>int\<close>: an integer,
  or a boolean (\<^verbatim>\<open>True\<close> is 1). Comparing an \<^verbatim>\<open>int\<close> with anything else raises
  \<^verbatim>\<open>TypeError\<close>.
\<close>

definition as_number :: "yaml \<Rightarrow> error + int" where
  "as_number v =
     (case v of
        YInt i \<Rightarrow> Inr i
      | YBool b \<Rightarrow> Inr (if b then 1 else 0)
      | _ \<Rightarrow> Inl (TypeError ''compare''))"

section \<open>The fork transition table: \<^verbatim>\<open>load_previous_fork_mapping\<close>\<close>

text \<open>
  One attempt of the pattern \<^verbatim>\<open>PREVIOUS_FORK_OF\s*=\s*\{([^}]+)\}\<close> at the start of
  \<open>s\<close>, returning group 1. Each greedy repetition is followed by a character outside
  its class, so the longest repetition is the only one that can match.
\<close>

definition match_here :: "string \<Rightarrow> string option" where
  "match_here s =
     (if startswith s ''PREVIOUS_FORK_OF'' then
        (case dropWhile is_space (drop (length ''PREVIOUS_FORK_OF'') s) of
           [] \<Rightarrow> None
         | c # r \<Rightarrow>
             if c = CHR ''='' then
               (case dropWhile is_space r of
                  [] \<Rightarrow> None
                | d # r' \<Rightarrow>
                    if d = CHR ''{'' then
                      let body = takeWhile (\<lambda>x. x \<noteq> CHR ''}'') r';
                          rest = dropWhile (\<lambda>x. x \<noteq> CHR ''}'') r'
                      in if body \<noteq> [] \<and> rest \<noteq> [] then Some body else None
                    else None)
             else None)
      else None)"

text \<open>\<^verbatim>\<open>re.search\<close>: the leftmost position at which the pattern matches.\<close>

fun search :: "string \<Rightarrow> string option" where
  "search [] = match_here []"
| "search (c # cs) = (case match_here (c # cs) of None \<Rightarrow> search cs | Some b \<Rightarrow> Some b)"

text \<open>The body of the loop over the lines of the dictionary; the table is a \<^verbatim>\<open>dict\<close>.\<close>

definition parse_line :: "(string \<times> string) list \<Rightarrow> string \<Rightarrow> (string \<times> string) list" where
  "parse_line tbl raw =
     (let line = strip raw in
      if contains line '':'' \<and> \<not> startswith line ''#'' then
        (case split_on CHR '':'' line of
           [k, v] \<Rightarrow>
             let key = strip k; val = rstrip '','' (strip v)
             in if val \<noteq> [] \<and> val \<noteq> ''None'' then AList.update (lower key) (lower val) tbl
                else tbl
         | _ \<Rightarrow> tbl)
      else tbl)"

text \<open>\<open>content\<close> is the text of \<^verbatim>\<open>constants.py\<close>, or \<open>None\<close> when the file does not exist.\<close>

definition load_previous_fork_mapping :: "string option \<Rightarrow> (string \<times> string) list" where
  "load_previous_fork_mapping content =
     (case content of
        None \<Rightarrow> []
      | Some text \<Rightarrow>
          (case search text of
             None \<Rightarrow> []
           | Some dict_content \<Rightarrow> foldl parse_line [] (split_on CHR 0x0A dict_content)))"

text \<open>
  Following predecessor links, in the words of the specification: from \<open>v\<close>, move to
  the predecessor while there is one. The result is the version reached that has no
  predecessor, or \<open>None\<close> when \<open>n\<close> steps were not enough.
\<close>

fun follow :: "(string \<times> string) list \<Rightarrow> nat \<Rightarrow> string \<Rightarrow> string option" where
  "follow tbl 0 v = None"
| "follow tbl (Suc n) v =
     (case map_of tbl v of
        None \<Rightarrow> Some v
      | Some p \<Rightarrow> follow tbl n p)"

section \<open>Type names: \<^verbatim>\<open>derive_type_from_suite\<close>\<close>

definition fork_choice_type :: "string \<Rightarrow> string \<Rightarrow> string option" where
  "fork_choice_type test_type filename =
     (if test_type \<in> set [''fork_choice'', ''sync''] then
        if filename = ''anchor_state.ssz_snappy'' then Some ''BeaconState''
        else if filename = ''anchor_block.ssz_snappy'' then Some ''BeaconBlock''
        else if startswith filename ''block_'' then Some ''SignedBeaconBlock''
        else if startswith filename ''attestation_'' then Some ''Attestation''
        else if startswith filename ''attester_slashing_'' then Some ''AttesterSlashing''
        else if startswith filename ''pow_block_'' then Some ''PowBlock''
        else if startswith filename ''column_'' then Some ''DataColumnSidecar''
        else if startswith filename ''blobs_'' then Some ''BlobSidecar''
        else None
      else None)"

definition light_client_type :: "string \<Rightarrow> string \<Rightarrow> string \<Rightarrow> string option" where
  "light_client_type test_type test_suite filename =
     (if test_type = ''light_client'' then
        if test_suite = ''data_collection'' \<and> startswith filename ''block_'' then Some ''SignedBeaconBlock''
        else if test_suite = ''update_ranking''
                \<and> (startswith filename ''update_'' \<or> startswith filename ''updates_'')
          then Some ''LightClientUpdate''
        else if test_suite = ''sync'' then
          if startswith filename ''update_'' then Some ''LightClientUpdate''
          else if startswith filename ''optimistic_update_'' then Some ''LightClientOptimisticUpdate''
          else if startswith filename ''finality_update_'' then Some ''LightClientFinalityUpdate''
          else if startswith filename ''bootstrap_'' \<or> filename = ''bootstrap.ssz_snappy''
            then Some ''LightClientBootstrap''
          else None
        else None
      else None)"

definition rewards_type :: "string \<Rightarrow> string \<Rightarrow> string option" where
  "rewards_type test_type filename =
     (if test_type = ''rewards'' \<and> endswith filename ''_deltas.ssz_snappy'' then Some ''Deltas''
      else None)"

definition genesis_type :: "string \<Rightarrow> string \<Rightarrow> string option" where
  "genesis_type test_type filename =
     (if test_type = ''genesis'' then
        if startswith filename ''deposits_'' then Some ''Deposit''
        else if filename \<in> set [''state.ssz_snappy'', ''genesis.ssz_snappy''] then Some ''BeaconState''
        else None
      else None)"

definition data_collection_type :: "string \<Rightarrow> string \<Rightarrow> string \<Rightarrow> string option" where
  "data_collection_type test_type test_suite filename =
     (if test_type = ''light_client'' \<and> test_suite = ''data_collection'' then
        if startswith filename ''update_'' then Some ''LightClientUpdate''
        else if startswith filename ''optimistic_update_'' then Some ''LightClientOptimisticUpdate''
        else if startswith filename ''finality_update_'' then Some ''LightClientFinalityUpdate''
        else if startswith filename ''bootstrap_'' then Some ''LightClientBootstrap''
        else None
      else None)"

definition type_map :: "(string \<times> string) list" where
  "type_map =
     [(''attestation'', ''Attestation''),
      (''attester_slashing'', ''AttesterSlashing''),
      (''block_header'', ''BeaconBlock''),
      (''deposit'', ''Deposit''),
      (''proposer_slashing'', ''ProposerSlashing''),
      (''voluntary_exit'', ''SignedVoluntaryExit''),
      (''sync_aggregate'', ''SyncAggregate''),
      (''execution_payload'', ''ExecutionPayload''),
      (''withdrawals'', ''ExecutionPayload''),
      (''bls_to_execution_change'', ''SignedBLSToExecutionChange'')]"

definition state_filenames :: "string list" where
  "state_filenames =
     [''pre.ssz_snappy'', ''post.ssz_snappy'', ''pre_epoch.ssz_snappy'', ''post_epoch.ssz_snappy'',
      ''initial_state.ssz_snappy'']"

text \<open>
  The function is a sequence of \<^verbatim>\<open>if\<close> blocks that either return or fall through to the
  next one; each block with a fall-through is one of the optional results above.
\<close>

definition derive_type_from_suite :: "string \<Rightarrow> string \<Rightarrow> string \<Rightarrow> string" where
  "derive_type_from_suite test_type test_suite filename =
     (if filename \<in> set state_filenames then ''BeaconState''
      else if filename = ''body.ssz_snappy'' then ''BeaconBlockBody''
      else if filename = ''signed_envelope.ssz_snappy'' then ''SignedExecutionPayloadEnvelope''
      else case fork_choice_type test_type filename of Some t \<Rightarrow> t | None \<Rightarrow>
        (case light_client_type test_type test_suite filename of Some t \<Rightarrow> t | None \<Rightarrow>
        (case rewards_type test_type filename of Some t \<Rightarrow> t | None \<Rightarrow>
        (case genesis_type test_type filename of Some t \<Rightarrow> t | None \<Rightarrow>
        (case data_collection_type test_type test_suite filename of Some t \<Rightarrow> t | None \<Rightarrow>
        (if test_type = ''operations'' \<and> test_suite \<in> set [''block_header'', ''execution_payload_bid'']
            \<and> filename = ''block.ssz_snappy'' then ''BeaconBlock''
         else if startswith filename ''blocks_'' \<or> filename = ''block.ssz_snappy'' then ''SignedBeaconBlock''
         else (case (if test_type = ''operations'' then map_of type_map test_suite else None) of
                 Some t \<Rightarrow> t
               | None \<Rightarrow> concat (map capitalize (split_on CHR ''_'' test_suite)))))))))"

section \<open>Fork and type resolution: \<^verbatim>\<open>parse_ssz_path\<close>\<close>

text \<open>
  A path is the list of its segments (\<^verbatim>\<open>Path.parts\<close>); its last segment is
  \<^verbatim>\<open>Path.name\<close> and the segments before it are \<^verbatim>\<open>Path.parent\<close>. Each rule below is
  one block of \<^verbatim>\<open>parse_ssz_path\<close>; it takes and returns the pair of
  \<^verbatim>\<open>actual_fork\<close> and the messages printed so far. \<open>tbl\<close> is the module-level
  \<^verbatim>\<open>PREVIOUS_FORK_OF\<close>.
\<close>

type_synonym resolution = "string \<times> event list"

definition all_forks :: "string list" where
  "all_forks = [''phase0'', ''altair'', ''bellatrix'', ''capella'', ''deneb'', ''electra'',
                ''eip7805'', ''fulu'', ''gloas'']"

definition slot_prefixes :: "string list" where
  "slot_prefixes = [''update_'', ''optimistic_update_'', ''finality_update_'', ''bootstrap_'', ''block_'']"

text \<open>Fork tests: \<^verbatim>\<open>pre.ssz_snappy\<close> is read under the previous fork.\<close>

definition fork_rule ::
  "(string \<times> string) list \<Rightarrow> string \<Rightarrow> string \<Rightarrow> string \<Rightarrow> resolution \<Rightarrow> resolution" where
  "fork_rule tbl fork test_type filename st =
     (if test_type = ''fork'' \<and> filename = ''pre.ssz_snappy'' then
        (case map_of tbl fork of
           Some p \<Rightarrow> (p, snd st @ [Fork_test_previous p fork])
         | None \<Rightarrow> (fst st, snd st @ [Warning_no_previous_fork fork]))
      else st)"

text \<open>Transition tests: \<^verbatim>\<open>pre.ssz_snappy\<close> is read under the fork before \<^verbatim>\<open>post_fork\<close>.\<close>

definition transition_pre_rule ::
  "(string \<times> string) list \<Rightarrow> files \<Rightarrow> string list \<Rightarrow> string \<Rightarrow> string \<Rightarrow> string
     \<Rightarrow> resolution \<Rightarrow> error + resolution" where
  "transition_pre_rule tbl files parent fork test_type filename st =
     (if test_type = ''transition'' \<and> filename = ''pre.ssz_snappy'' then
        (case files (parent @ [''meta.yaml'']) of
           Missing \<Rightarrow> Inr (fst st, snd st @ [Warning_meta_not_found fork])
         | Malformed \<Rightarrow> Inl YAMLError
         | Loaded meta \<Rightarrow>
             (case dict_get meta ''post_fork'' (YStr fork) of
                Inl e \<Rightarrow> Inl e
              | Inr v \<Rightarrow>
                  (case str_lower v of
                     Inl e \<Rightarrow> Inl e
                   | Inr post_fork \<Rightarrow>
                       (case map_of tbl post_fork of
                          Some p \<Rightarrow> Inr (p, snd st @ [Transition_pre_fork p post_fork])
                        | None \<Rightarrow> Inr (fst st, snd st @ [Warning_no_previous_of_post_fork post_fork])))))
      else Inr st)"

text \<open>
  \<^verbatim>\<open>int(filename.split('_')[1].split('.')[0])\<close>; \<open>None\<close> stands for the
  \<^verbatim>\<open>ValueError\<close> or \<^verbatim>\<open>IndexError\<close> that the block catches.
\<close>

definition block_index_of :: "string \<Rightarrow> int option" where
  "block_index_of filename =
     (case split_on CHR ''_'' filename of
        _ # p # _ \<Rightarrow> py_int (hd (split_on CHR ''.'' p))
      | _ \<Rightarrow> None)"

text \<open>Transition tests: a \<^verbatim>\<open>blocks_N\<close> file is read under the fork its index falls in.\<close>

definition transition_blocks_rule ::
  "(string \<times> string) list \<Rightarrow> files \<Rightarrow> string list \<Rightarrow> string \<Rightarrow> string \<Rightarrow> string
     \<Rightarrow> resolution \<Rightarrow> error + resolution" where
  "transition_blocks_rule tbl files parent fork test_type filename st =
     (if test_type = ''transition'' \<and> startswith filename ''blocks_'' then
        (case block_index_of filename of
           None \<Rightarrow> Inr (fst st, snd st @ [Warning_block_index filename])
         | Some block_index \<Rightarrow>
             (case files (parent @ [''meta.yaml'']) of
                Missing \<Rightarrow> Inr (fst st, snd st @ [Warning_meta_not_found fork])
              | Malformed \<Rightarrow> Inl YAMLError
              | Loaded meta \<Rightarrow>
                  (case dict_get meta ''post_fork'' (YStr fork) of
                     Inl e \<Rightarrow> Inl e
                   | Inr v \<Rightarrow>
                       (case str_lower v of
                          Inl e \<Rightarrow> Inl e
                        | Inr post_fork \<Rightarrow>
                            (case dict_get meta ''fork_block'' YNull of
                               Inl e \<Rightarrow> Inl e
                             | Inr fork_block \<Rightarrow>
                                 if fork_block \<noteq> YNull then
                                   (case as_number fork_block of
                                      Inl e \<Rightarrow> Inl e
                                    | Inr t \<Rightarrow>
                                        if block_index \<le> t then
                                          (case map_of tbl post_fork of
                                             Some p \<Rightarrow>
                                               Inr (p, snd st @ [Transition_block_pre_fork block_index fork_block p])
                                           | None \<Rightarrow>
                                               Inr (fst st, snd st @ [Warning_no_previous_for_block post_fork]))
                                        else
                                          Inr (post_fork,
                                               snd st @ [Transition_block_post_fork block_index fork_block post_fork]))
                                 else Inr (fst st, snd st @ [Warning_fork_block_not_found fork]))))))
      else Inr st)"

text \<open>The first piece of the file name that \<^verbatim>\<open>int\<close> accepts.\<close>

fun first_int :: "string list \<Rightarrow> int option" where
  "first_int [] = None"
| "first_int (p # ps) = (case py_int p of None \<Rightarrow> first_int ps | Some n \<Rightarrow> Some n)"

definition fork_epoch_key :: "string \<Rightarrow> string" where
  "fork_epoch_key fork_name = upper fork_name @ ''_FORK_EPOCH''"

text \<open>\<^verbatim>\<open>all_forks.index(fork)\<close>, with 0 for the \<^verbatim>\<open>ValueError\<close>.\<close>

definition current_fork_idx :: "string \<Rightarrow> nat" where
  "current_fork_idx fork =
     (if fork \<in> set all_forks then length (takeWhile (\<lambda>f. f \<noteq> fork) all_forks) else 0)"

text \<open>
  The loop over the forks from the directory fork on: \<open>selected\<close> is
  \<^verbatim>\<open>selected_fork\<close>, the list holds the forks still to check.
\<close>

fun walk_forks :: "(string \<times> yaml) list \<Rightarrow> int \<Rightarrow> string \<Rightarrow> string list \<Rightarrow> error + string" where
  "walk_forks config epoch selected [] = Inr selected"
| "walk_forks config epoch selected (fork_name # rest) =
     (case map_of config (fork_epoch_key fork_name) of
        None \<Rightarrow> walk_forks config epoch selected rest
      | Some fork_epoch \<Rightarrow>
          (case as_number fork_epoch of
             Inl e \<Rightarrow> Inl e
           | Inr a \<Rightarrow>
               if epoch \<ge> a then walk_forks config epoch fork_name rest
               else Inr selected))"

text \<open>
  Light-client files with a slot number in their name. The result also tells whether
  a slot number was found (\<^verbatim>\<open>has_slot_number\<close>).
\<close>

definition slot_rule ::
  "files \<Rightarrow> string list \<Rightarrow> string \<Rightarrow> string \<Rightarrow> string \<Rightarrow> string \<Rightarrow> resolution
     \<Rightarrow> error + (bool \<times> resolution)" where
  "slot_rule files parent fork test_suite test_case filename st =
     (if list_ex (startswith filename) slot_prefixes then
        (case first_int (split_on CHR ''_'' filename) of
           None \<Rightarrow> Inr (False, st)
         | Some epoch_or_slot \<Rightarrow>
             (case files (parent @ [''config.yaml'']) of
                Missing \<Rightarrow> Inr (True, st)
              | Malformed \<Rightarrow> Inl YAMLError
              | Loaded config \<Rightarrow>
                  (case dict_get config ''PRESET_BASE'' (YStr ''mainnet'') of
                     Inl e \<Rightarrow> Inl e
                   | Inr v \<Rightarrow>
                       (case str_lower v of
                          Inl e \<Rightarrow> Inl e
                        | Inr preset_base \<Rightarrow>
                            let slots_per_epoch = (if preset_base = ''minimal'' then 8 else 32);
                                epoch = epoch_or_slot div slots_per_epoch;
                                m = (case config of YMap kv \<Rightarrow> kv | _ \<Rightarrow> [])
                            in (case walk_forks m epoch fork (drop (current_fork_idx fork) all_forks) of
                                  Inl e \<Rightarrow> Inl e
                                | Inr selected_fork \<Rightarrow>
                                    if selected_fork \<noteq> fork then
                                      Inr (True, (selected_fork,
                                             snd st @ [Light_client_slot test_suite test_case epoch_or_slot
                                                         epoch selected_fork fork]))
                                    else Inr (True, st))))))
      else Inr (False, st))"

text \<open>Light-client files without a slot number: the fork names in the test case name.\<close>

definition name_rule ::
  "string \<Rightarrow> string \<Rightarrow> string \<Rightarrow> string \<Rightarrow> bool \<Rightarrow> resolution \<Rightarrow> resolution" where
  "name_rule fork test_suite test_case filename has_slot_number st =
     (let fork_names =
            (if filename \<noteq> ''initial_state.ssz_snappy''
             then filter (\<lambda>potential_fork. contains (lower test_case) potential_fork) all_forks
             else [])
      in if \<not> has_slot_number \<and> length fork_names \<ge> 1 \<and> test_suite \<noteq> ''sync'' then
           let selected_fork = last fork_names
           in if selected_fork \<noteq> fork then
                (selected_fork, snd st @ [Light_client_name test_suite test_case selected_fork fork])
              else st
         else st)"

definition light_client_rule ::
  "files \<Rightarrow> string list \<Rightarrow> string \<Rightarrow> string \<Rightarrow> string \<Rightarrow> string \<Rightarrow> string \<Rightarrow> resolution
     \<Rightarrow> error + resolution" where
  "light_client_rule files parent fork test_type test_suite test_case filename st =
     (if test_type = ''light_client'' then
        (case slot_rule files parent fork test_suite test_case filename st of
           Inl e \<Rightarrow> Inl e
         | Inr (has_slot_number, st') \<Rightarrow>
             Inr (name_rule fork test_suite test_case filename has_slot_number st'))
      else Inr st)"

text \<open>The last block: the type name. \<open>parts\<close> and \<open>tests_idx\<close> are those of the caller.\<close>

definition type_name_of ::
  "string list \<Rightarrow> nat \<Rightarrow> string \<Rightarrow> string \<Rightarrow> string \<Rightarrow> error + string" where
  "type_name_of parts tests_idx test_type test_suite filename =
     (if test_type = ''ssz_static'' then Inr test_suite
      else if test_type \<in> set [''light_client'', ''merkle_proof'']
              \<and> test_suite = ''single_merkle_proof'' \<and> filename = ''object.ssz_snappy'' then
        (if length parts > tests_idx + 5 then Inr (parts ! (tests_idx + 5))
         else Inl (ValueError ''Path too short for single_merkle_proof test''))
      else Inr (derive_type_from_suite test_type test_suite filename))"

text \<open>
  The result is the tuple \<^verbatim>\<open>(preset, actual_fork, type_name, filename)\<close> together with
  the messages printed on the way.
\<close>

definition parse_ssz_path ::
  "(string \<times> string) list \<Rightarrow> files \<Rightarrow> string list
     \<Rightarrow> error + ((string \<times> string \<times> string \<times> string) \<times> event list)" where
  "parse_ssz_path tbl files parts =
     (let tests_idx = length (takeWhile (\<lambda>p. p \<noteq> ''tests'') parts) in
      if tests_idx = length parts then Inl (ValueError ''Path must contain tests directory'')
      else if length parts < tests_idx + 5 then Inl (ValueError ''Path too short'')
      else
        let preset = parts ! (tests_idx + 1);
            fork = parts ! (tests_idx + 2);
            test_type = parts ! (tests_idx + 3);
            test_suite = parts ! (tests_idx + 4);
            filename = last parts;
            parent = butlast parts;
            test_case = (if length parts > tests_idx + 6 then parts ! (tests_idx + 6) else [])
        in (case transition_pre_rule tbl files parent fork test_type filename
                   (fork_rule tbl fork test_type filename (fork, [])) of
              Inl e \<Rightarrow> Inl e
            | Inr st1 \<Rightarrow>
                (case transition_blocks_rule tbl files parent fork test_type filename st1 of
                   Inl e \<Rightarrow> Inl e
                 | Inr st2 \<Rightarrow>
                     (case light_client_rule files parent fork test_type test_suite test_case filename st2 of
                        Inl e \<Rightarrow> Inl e
                      | Inr st3 \<Rightarrow>
                          (case type_name_of parts tests_idx test_type test_suite filename of
                             Inl e \<Rightarrow> Inl e
                           | Inr type_name \<Rightarrow> Inr ((preset, fst st3, type_name, filename), snd st3))))))"

section \<open>Decoding: \<^verbatim>\<open>get_ssz_type_class\<close> and \<^verbatim>\<open>deserialize_ssz_file\<close>\<close>

text \<open>
  The two collaborators are parameters. \<open>registry\<close> stands for
  \<^verbatim>\<open>importlib.import_module\<close>: it maps a module path to the module's attributes
  (\<open>None\<close> is the \<^verbatim>\<open>ImportError\<close>). \<open>decoder\<close> stands for
  \<^verbatim>\<open>get_ssz_object_from_ssz_encoded\<close>: it reads the file at a path under a type class
  and returns the object or raises. \<open>Deltas\<close> is the class the script defines itself.
\<close>

datatype 'c ssz_class = Deltas | Spec_class 'c

type_synonym 'c registry = "string \<Rightarrow> (string \<Rightarrow> 'c option) option"

type_synonym ('c, 'o) decoder = "string list \<Rightarrow> 'c ssz_class \<Rightarrow> error + 'o"

definition get_ssz_type_class :: "'c registry \<Rightarrow> string \<Rightarrow> string \<Rightarrow> string \<Rightarrow> error + 'c ssz_class" where
  "get_ssz_type_class registry preset fork type_name =
     (if type_name = ''Deltas'' then Inr Deltas
      else
        let preset' = (if preset = ''general'' then ''mainnet'' else preset);
            module_path = ''eth2spec.'' @ fork @ ''.'' @ preset'
        in (case registry module_path of
              None \<Rightarrow> Inl (ImportError module_path)
            | Some module \<Rightarrow>
                (case module type_name of
                   None \<Rightarrow> Inl (AttributeError type_name)
                 | Some c \<Rightarrow> Inr (Spec_class c))))"

text \<open>\<^verbatim>\<open>str(path)\<close> of a POSIX path with the given segments.\<close>

definition path_str :: "string list \<Rightarrow> string" where
  "path_str parts =
     (case parts of
        [] \<Rightarrow> ''.''
      | p # ps \<Rightarrow> if p = ''/'' then ''/'' @ join ''/'' ps else join ''/'' parts)"

definition is_light_client_sync :: "string list \<Rightarrow> bool" where
  "is_light_client_sync input_path =
     (contains (path_str input_path) ''light_client'' \<and> contains (path_str input_path) ''/sync/'')"

definition retry_forks :: "string list" where
  "retry_forks = [''deneb'', ''electra'', ''capella'', ''bellatrix'', ''altair'']"

definition alternative_forks :: "string list \<Rightarrow> string \<Rightarrow> string list" where
  "alternative_forks input_path fork =
     (if is_light_client_sync input_path then
        filter (\<lambda>potential_fork. contains (lower (path_str input_path)) potential_fork
                                  \<and> potential_fork \<noteq> fork) retry_forks
      else [])"

text \<open>
  The \<^verbatim>\<open>for ... else\<close> loop over the alternative forks: any exception of an attempt is
  swallowed, the first success ends the loop and sets \<^verbatim>\<open>fork\<close>, and running out of
  candidates raises the exception \<open>e\<close> of the first decode.
\<close>

fun try_alternatives ::
  "'c registry \<Rightarrow> ('c, 'o) decoder \<Rightarrow> string list \<Rightarrow> string \<Rightarrow> string \<Rightarrow> error \<Rightarrow> string list
     \<Rightarrow> error + ('o \<times> string)" where
  "try_alternatives registry decoder input_path preset type_name e [] = Inl e"
| "try_alternatives registry decoder input_path preset type_name e (alt_fork # rest) =
     (case get_ssz_type_class registry preset alt_fork type_name of
        Inl _ \<Rightarrow> try_alternatives registry decoder input_path preset type_name e rest
      | Inr c \<Rightarrow>
          (case decoder input_path c of
             Inl _ \<Rightarrow> try_alternatives registry decoder input_path preset type_name e rest
           | Inr ssz_obj \<Rightarrow> Inr (ssz_obj, alt_fork)))"

text \<open>
  \<^verbatim>\<open>deserialize_ssz_file\<close> called without an output path. The result is the returned
  object together with the final value of the local variable \<^verbatim>\<open>fork\<close>, the fork the
  object was decoded under.
\<close>

definition deserialize_ssz_file ::
  "(string \<times> string) list \<Rightarrow> files \<Rightarrow> 'c registry \<Rightarrow> ('c, 'o) decoder \<Rightarrow> string list
     \<Rightarrow> error + ('o \<times> string)" where
  "deserialize_ssz_file tbl files registry decoder input_path =
     (case parse_ssz_path tbl files input_path of
        Inl e \<Rightarrow> Inl e
      | Inr ((preset, fork, type_name, filename), log) \<Rightarrow>
          (case get_ssz_type_class registry preset fork type_name of
             Inl e \<Rightarrow> Inl e
           | Inr ssz_type_class \<Rightarrow>
               (case decoder input_path ssz_type_class of
                  Inr ssz_obj \<Rightarrow> Inr (ssz_obj, fork)
                | Inl e \<Rightarrow>
                    if is_light_client_sync input_path \<and> alternative_forks input_path fork \<noteq> [] then
                      try_alternatives registry decoder input_path preset type_name e
                        (alternative_forks input_path fork)
                    else Inl e)))"

section \<open>The rules in the words of the specification\<close>

text \<open>
  The activation epoch that the sidecar configuration gives for a fork, when the key
  \<^verbatim>\<open><VERSION>_FORK_EPOCH\<close> is present with a number.
\<close>

definition activation_epoch :: "(string \<times> yaml) list \<Rightarrow> string \<Rightarrow> int option" where
  "activation_epoch config fork_name =
     (case map_of config (fork_epoch_key fork_name) of
        None \<Rightarrow> None
      | Some v \<Rightarrow> (case as_number v of Inl _ \<Rightarrow> None | Inr a \<Rightarrow> Some a))"

text \<open>
  The slot-boundary rule as the specification words it: walk the versions in order, stop
  at the first one whose activation epoch is present and not yet reached, and take the
  last version passed on the way whose activation epoch is present; without one, keep the
  starting fork.
\<close>

definition advance :: "(string \<times> yaml) list \<Rightarrow> int \<Rightarrow> string \<Rightarrow> string list \<Rightarrow> string" where
  "advance config epoch start versions =
     (let walked = takeWhile (\<lambda>f. case activation_epoch config f of None \<Rightarrow> True | Some a \<Rightarrow> a \<le> epoch)
                             versions;
          activated = filter (\<lambda>f. activation_epoch config f \<noteq> None) walked
      in if activated = [] then start else last activated)"

text \<open>
  The versions walked are those from the directory fork's place in the list of known
  forks on; a directory fork that is not in the list has the place 0.
\<close>

definition slot_boundary_fork :: "(string \<times> yaml) list \<Rightarrow> int \<Rightarrow> string \<Rightarrow> string" where
  "slot_boundary_fork config epoch fork = advance config epoch fork (drop (current_fork_idx fork) all_forks)"

text \<open>Every activation-epoch key of the configuration holds a number.\<close>

definition numeric_epochs :: "(string \<times> yaml) list \<Rightarrow> bool" where
  "numeric_epochs config =
     list_all (\<lambda>f. case map_of config (fork_epoch_key f) of
                      None \<Rightarrow> True
                    | Some v \<Rightarrow> (case as_number v of Inl _ \<Rightarrow> False | Inr _ \<Rightarrow> True)) all_forks"

text \<open>
  One retry of the decode dispatcher under a candidate fork: the decoded object, or
  \<open>None\<close> when the type look-up or the decoder fails. \<open>successes\<close> lists, in the order
  of the candidates, those that decode, each with its object.
\<close>

definition attempt ::
  "'c registry \<Rightarrow> ('c, 'o) decoder \<Rightarrow> string list \<Rightarrow> string \<Rightarrow> string \<Rightarrow> string \<Rightarrow> 'o option" where
  "attempt registry decoder input_path preset type_name fork =
     (case get_ssz_type_class registry preset fork type_name of
        Inl _ \<Rightarrow> None
      | Inr c \<Rightarrow> (case decoder input_path c of Inl _ \<Rightarrow> None | Inr obj \<Rightarrow> Some obj))"

definition successes ::
  "'c registry \<Rightarrow> ('c, 'o) decoder \<Rightarrow> string list \<Rightarrow> string \<Rightarrow> string \<Rightarrow> string list
     \<Rightarrow> ('o \<times> string) list" where
  "successes registry decoder input_path preset type_name candidates =
     List.map_filter
       (\<lambda>fork. map_option (\<lambda>obj. (obj, fork)) (attempt registry decoder input_path preset type_name fork))
       candidates"

section \<open>Example inputs\<close>

text \<open>
  A fixture tree with ten binary fixtures in two categories: seven have a companion,
  two of \<^verbatim>\<open>minimal/altair/operations/attestation\<close> and one of
  \<^verbatim>\<open>mainnet/deneb/ssz_static/Checkpoint\<close> have none.
\<close>

definition audit_scenario :: fs where
  "audit_scenario = Dir
     [(''mainnet'', Dir [(''deneb'', Dir [(''ssz_static'', Dir [(''Checkpoint'', Dir
         [(''ssz_random'', Dir
             [(''case_0'', Dir [(''serialized.ssz_snappy'', File), (''serialized.ssz_snappy.yaml'', File)]),
              (''case_1'', Dir [(''serialized.ssz_snappy'', File), (''roots.yaml'', File)])]),
          (''ssz_zero'', Dir
             [(''case_0'', Dir [(''serialized.ssz_snappy'', File), (''serialized.ssz_snappy.yaml'', File)])]),
          (''ssz_one'', Dir
             [(''case_0'', Dir [(''serialized.ssz_snappy.yaml'', File), (''serialized.ssz_snappy'', File)])])])])])]),
      (''minimal'', Dir [(''altair'', Dir [(''operations'', Dir [(''attestation'', Dir
         [(''case_0'', Dir
             [(''pre.ssz_snappy'', File), (''pre.ssz_snappy.yaml'', File),
              (''attestation.ssz_snappy'', File), (''attestation.ssz_snappy.yaml'', File),
              (''post.ssz_snappy'', File)]),
          (''case_1'', Dir
             [(''pre.ssz_snappy'', File), (''pre.ssz_snappy.yaml'', File),
              (''attestation.ssz_snappy'', File),
              (''post.ssz_snappy'', File), (''post.ssz_snappy.yaml'', File)])])])])])]"

text \<open>A tree whose only binary fixture lies three segments below the root.\<close>

definition shallow_tree :: fs where
  "shallow_tree = Dir [(''minimal'', Dir [(''altair'', Dir [(''state.ssz_snappy'', File)])])]"

text \<open>
  Two texts for \<^verbatim>\<open>constants.py\<close>: one with the dictionary in the layout of the consensus
  specification, one whose dictionary names two forks as each other's predecessor.
\<close>

definition chained_constants :: string where
  "chained_constants =
     ''ALL_PHASES = ()'' @ [CHR 0x0A] @
     ''PREVIOUS_FORK_OF = {'' @ [CHR 0x0A] @
     ''    # post_fork_name: pre_fork_name'' @ [CHR 0x0A] @
     ''    PHASE0: None,'' @ [CHR 0x0A] @
     ''    ALTAIR: PHASE0,'' @ [CHR 0x0A] @
     ''    BELLATRIX: ALTAIR,'' @ [CHR 0x0A] @
     ''    CAPELLA: BELLATRIX,'' @ [CHR 0x0A] @
     ''    DENEB: CAPELLA,'' @ [CHR 0x0A] @
     ''    ELECTRA: DENEB,'' @ [CHR 0x0A] @
     ''    FULU: ELECTRA,'' @ [CHR 0x0A] @
     ''    GLOAS: FULU,'' @ [CHR 0x0A] @
     ''    # Experimental patches'' @ [CHR 0x0A] @
     ''    EIP7805: FULU,'' @ [CHR 0x0A] @
     ''}'' @ [CHR 0x0A]"

definition cyclic_constants :: string where
  "cyclic_constants =
     ''PREVIOUS_FORK_OF = {'' @ [CHR 0x0A] @
     ''    ALTAIR: BELLATRIX,'' @ [CHR 0x0A] @
     ''    BELLATRIX: ALTAIR,'' @ [CHR 0x0A] @
     ''}'' @ [CHR 0x0A]"

text \<open>The place of a fork in the order of the chained dictionary.\<close>

definition chain_rank :: "string \<Rightarrow> nat" where
  "chain_rank v =
     length (takeWhile (\<lambda>f. f \<noteq> v)
               [''phase0'', ''altair'', ''bellatrix'', ''capella'', ''deneb'', ''electra'', ''fulu'',
                ''gloas'', ''eip7805''])"

text \<open>A file system with one sidecar file, at path \<open>p\<close>, holding the mapping \<open>kv\<close>.\<close>

definition one_sidecar :: "string list \<Rightarrow> (string \<times> yaml) list \<Rightarrow> files" where
  "one_sidecar p kv = (\<lambda>q. if q = p then Loaded (YMap kv) else Missing)"

text \<open>
  A type registry with the light-client types of six forks under the minimal preset,
  and a decoder that accepts the file exactly under the listed classes.
\<close>

definition example_registry :: "string registry" where
  "example_registry module_path =
     (if module_path \<in> set [''eth2spec.altair.minimal'', ''eth2spec.bellatrix.minimal'',
                             ''eth2spec.capella.minimal'', ''eth2spec.deneb.minimal'',
                             ''eth2spec.electra.minimal'', ''eth2spec.fulu.minimal'']
      then Some (\<lambda>type_name.
             if type_name \<in> set [''LightClientBootstrap'', ''LightClientUpdate'']
             then Some (module_path @ ''.'' @ type_name) else None)
      else None)"

definition example_decoder :: "string list \<Rightarrow> (string, string) decoder" where
  "example_decoder accepted input_path c =
     (case c of
        Deltas \<Rightarrow> Inl (DecodeError ''Deltas'')
      | Spec_class name \<Rightarrow>
          if name \<in> set accepted then Inr (''object of '' @ name) else Inl (DecodeError name))"

section \<open>Properties of the audit\<close>

lemma scan_file_balance:
  "total_ssz r = total_yaml r + missing_count r \<Longrightarrow>
   total_ssz (scan_file root names r file)
     = total_yaml (scan_file root names r file) + missing_count (scan_file root names r file)"
  by (simp add: scan_file_def Let_def)

lemma foldl_scan_file_balance:
  "total_ssz r = total_yaml r + missing_count r \<Longrightarrow>
   total_ssz (foldl (scan_file root names) r files)
     = total_yaml (foldl (scan_file root names) r files)
       + missing_count (foldl (scan_file root names) r files)"
proof (induction files arbitrary: r)
  case Nil
  then show ?case by simp
next
  case (Cons f fs)
  from Cons.prems have "total_ssz (scan_file root names r f)
      = total_yaml (scan_file root names r f) + missing_count (scan_file root names r f)"
    by (rule scan_file_balance)
  then show ?case using Cons.IH by simp
qed

lemma scan_dir_balance:
  "total_ssz r = total_yaml r + missing_count r \<Longrightarrow>
   total_ssz (scan_dir r w) = total_yaml (scan_dir r w) + missing_count (scan_dir r w)"
  by (cases w) (simp add: scan_dir_def foldl_scan_file_balance)

lemma foldl_scan_dir_balance:
  "total_ssz r = total_yaml r + missing_count r \<Longrightarrow>
   total_ssz (foldl scan_dir r ws)
     = total_yaml (foldl scan_dir r ws) + missing_count (foldl scan_dir r ws)"
proof (induction ws arbitrary: r)
  case Nil
  then show ?case by simp
next
  case (Cons w ws)
  from Cons.prems have "total_ssz (scan_dir r w) = total_yaml (scan_dir r w) + missing_count (scan_dir r w)"
    by (rule scan_dir_balance)
  then show ?case using Cons.IH by simp
qed

lemma scan_preset_balance:
  "total_ssz r = total_yaml r + missing_count r \<Longrightarrow>
   total_ssz (scan_preset t r p) = total_yaml (scan_preset t r p) + missing_count (scan_preset t r p)"
  by (simp add: scan_preset_def foldl_scan_dir_balance split: option.splits)

text \<open>
  C10. For every fixture tree, the report of the audit satisfies
  total binary count = with-companion count + missing count: each file counted as a
  binary fixture adds one to exactly one of the two other counters.
\<close>

theorem audit_counts_balance:
  "total_ssz (check_missing_yamls tests_dir)
     = total_yaml (check_missing_yamls tests_dir) + missing_count (check_missing_yamls tests_dir)"
proof -
  have e: "total_ssz empty_report = total_yaml empty_report + missing_count empty_report"
    by (simp add: empty_report_def)
  have m: "total_ssz (scan_preset tests_dir empty_report ''minimal'')
             = total_yaml (scan_preset tests_dir empty_report ''minimal'')
               + missing_count (scan_preset tests_dir empty_report ''minimal'')"
    using e by (rule scan_preset_balance)
  show ?thesis
    unfolding check_missing_yamls_def using scan_preset_balance [OF m] by simp
qed


subsection \<open>The loops against the list of fixtures\<close>

lemma scan_file_tally:
  "scan_file root names r f
     = (if is_binary f then tally r (root @ [f], f @ ''.yaml'' \<in> set names) else r)"
  by (simp add: scan_file_def tally_def Let_def)

lemma foldl_scan_file_tally:
  "foldl (scan_file root names) r files
     = foldl tally r (map (\<lambda>f. (root @ [f], f @ ''.yaml'' \<in> set names)) (filter is_binary files))"
  by (induction files arbitrary: r) (simp_all add: scan_file_tally)

lemma scan_dir_tally: "scan_dir r w = foldl tally r (dir_fixtures w)"
  by (cases w) (simp add: scan_dir_def dir_fixtures_def foldl_scan_file_tally)

lemma foldl_scan_dir_tally:
  "foldl scan_dir r ws = foldl tally r (concat (map dir_fixtures ws))"
  by (induction ws arbitrary: r) (simp_all add: scan_dir_tally)

lemma scan_preset_tally:
  "scan_preset t r p = foldl tally r (preset_fixtures t p)"
  by (simp add: scan_preset_def preset_fixtures_def foldl_scan_dir_tally split: option.splits)

lemma check_missing_yamls_tally:
  "check_missing_yamls t = foldl tally empty_report (binary_fixtures t)"
  by (simp add: check_missing_yamls_def binary_fixtures_def scan_preset_tally)

lemma count_of_increment:
  "count_of (increment k d) k' = (if k' = k then count_of d k + 1 else count_of d k')"
  by (simp add: count_of_def increment_def update_conv')

lemma foldl_tally_total:
  "total_ssz (foldl tally r xs) = total_ssz r + length xs"
  by (induction xs arbitrary: r) (simp_all add: tally_def Let_def)

lemma foldl_tally_yaml:
  "total_yaml (foldl tally r xs) = total_yaml r + length (filter snd xs)"
  by (induction xs arbitrary: r) (simp_all add: tally_def Let_def)

lemma foldl_tally_missing:
  "missing_count (foldl tally r xs) = missing_count r + length (filter (\<lambda>x. \<not> snd x) xs)"
  by (induction xs arbitrary: r) (simp_all add: tally_def Let_def)

lemma foldl_tally_files:
  "missing_files (foldl tally r xs)
     = missing_files r
       @ map (join ''/'') (filter (\<lambda>p. 4 \<le> length p) (map fst (filter (\<lambda>x. \<not> snd x) xs)))"
  by (induction xs arbitrary: r) (simp_all add: tally_def Let_def)

lemma foldl_tally_by_type:
  "count_of (missing_by_test_type (foldl tally r xs)) k
     = count_of (missing_by_test_type r) k
       + length (filter (\<lambda>p. 4 \<le> length p \<and> category_key p = k)
                   (map fst (filter (\<lambda>x. \<not> snd x) xs)))"
  by (induction xs arbitrary: r)
     (simp_all add: tally_def Let_def count_of_increment category_key_def)


subsection \<open>Missing companions\<close>

text \<open>
  C8, as the code has it. For every audit run: the report counts every binary fixture
  (\<open>total_ssz\<close>) and every one with a companion (\<open>total_yaml\<close>); each binary fixture
  without a companion adds one to the global missing count; and each such fixture whose
  path relative to the root has at least four segments adds one to the count of its
  four-segment category key and is recorded, by that relative path, in the missing
  list, which is printed sorted. A fixture nearer to the root than four segments is
  counted as missing but neither keyed nor listed.
\<close>

theorem audit_records_missing:
  "missing_count (check_missing_yamls tests_dir) = length (lacking tests_dir)
   \<and> missing_files (check_missing_yamls tests_dir)
       = map (join ''/'') (filter (\<lambda>p. 4 \<le> length p) (lacking tests_dir))
   \<and> count_of (missing_by_test_type (check_missing_yamls tests_dir)) key
       = length (filter (\<lambda>p. 4 \<le> length p \<and> category_key p = key) (lacking tests_dir))
   \<and> total_ssz (check_missing_yamls tests_dir) = length (binary_fixtures tests_dir)
   \<and> total_yaml (check_missing_yamls tests_dir) = length (filter snd (binary_fixtures tests_dir))
   \<and> printed_missing_files (check_missing_yamls tests_dir)
       = sort (map (join ''/'') (filter (\<lambda>p. 4 \<le> length p) (lacking tests_dir)))"
proof -
  have e: "missing_count empty_report = 0" "missing_files empty_report = []"
    "count_of (missing_by_test_type empty_report) key = 0"
    "total_ssz empty_report = 0" "total_yaml empty_report = 0"
    by (simp_all add: empty_report_def count_of_def)
  have 1: "missing_count (check_missing_yamls tests_dir) = length (lacking tests_dir)"
    by (simp add: check_missing_yamls_tally foldl_tally_missing lacking_def e)
  have 2: "missing_files (check_missing_yamls tests_dir)
       = map (join ''/'') (filter (\<lambda>p. 4 \<le> length p) (lacking tests_dir))"
    by (simp add: check_missing_yamls_tally foldl_tally_files lacking_def e)
  have 3: "count_of (missing_by_test_type (check_missing_yamls tests_dir)) key
       = length (filter (\<lambda>p. 4 \<le> length p \<and> category_key p = key) (lacking tests_dir))"
    by (simp add: check_missing_yamls_tally foldl_tally_by_type lacking_def e)
  have 4: "total_ssz (check_missing_yamls tests_dir) = length (binary_fixtures tests_dir)"
    by (simp add: check_missing_yamls_tally foldl_tally_total e)
  have 5: "total_yaml (check_missing_yamls tests_dir) = length (filter snd (binary_fixtures tests_dir))"
    by (simp add: check_missing_yamls_tally foldl_tally_yaml e)
  show ?thesis using 1 2 3 4 5 by (simp add: printed_missing_files_def)
qed

text \<open>
  The scenario of the specification: ten binary fixtures in two categories, seven with
  a companion, two missing in the first category and one in the second.
\<close>

lemma lacking_audit_scenario:
  "lacking audit_scenario =
     [[''minimal'', ''altair'', ''operations'', ''attestation'', ''case_0'', ''post.ssz_snappy''],
      [''minimal'', ''altair'', ''operations'', ''attestation'', ''case_1'', ''attestation.ssz_snappy''],
      [''mainnet'', ''deneb'', ''ssz_static'', ''Checkpoint'', ''ssz_random'', ''case_1'',
       ''serialized.ssz_snappy'']]"
  by code_simp

lemma fixtures_audit_scenario:
  "length (binary_fixtures audit_scenario) = 10 \<and> length (filter snd (binary_fixtures audit_scenario)) = 7"
  by code_simp

theorem audit_records_missing_witness:
  "total_ssz (check_missing_yamls audit_scenario) = 10
   \<and> total_yaml (check_missing_yamls audit_scenario) = 7
   \<and> missing_count (check_missing_yamls audit_scenario) = 3
   \<and> count_of (missing_by_test_type (check_missing_yamls audit_scenario))
        ''minimal/altair/operations/attestation'' = 2
   \<and> count_of (missing_by_test_type (check_missing_yamls audit_scenario))
        ''mainnet/deneb/ssz_static/Checkpoint'' = 1
   \<and> printed_missing_files (check_missing_yamls audit_scenario)
       = [''mainnet/deneb/ssz_static/Checkpoint/ssz_random/case_1/serialized.ssz_snappy'',
          ''minimal/altair/operations/attestation/case_0/post.ssz_snappy'',
          ''minimal/altair/operations/attestation/case_1/attestation.ssz_snappy'']"
proof -
  note a = audit_records_missing [of audit_scenario "''minimal/altair/operations/attestation''"]
  note b = audit_records_missing [of audit_scenario "''mainnet/deneb/ssz_static/Checkpoint''"]
  have k1: "length (filter (\<lambda>p. 4 \<le> length p \<and> category_key p = ''minimal/altair/operations/attestation'')
                      (lacking audit_scenario)) = 2"
    unfolding lacking_audit_scenario by code_simp
  have k2: "length (filter (\<lambda>p. 4 \<le> length p \<and> category_key p = ''mainnet/deneb/ssz_static/Checkpoint'')
                      (lacking audit_scenario)) = 1"
    unfolding lacking_audit_scenario by code_simp
  have s: "sort (map (join ''/'') (filter (\<lambda>p. 4 \<le> length p) (lacking audit_scenario)))
       = [''mainnet/deneb/ssz_static/Checkpoint/ssz_random/case_1/serialized.ssz_snappy'',
          ''minimal/altair/operations/attestation/case_0/post.ssz_snappy'',
          ''minimal/altair/operations/attestation/case_1/attestation.ssz_snappy'']"
    unfolding lacking_audit_scenario by code_simp
  show ?thesis
    using a b k1 k2 s fixtures_audit_scenario by (simp add: lacking_audit_scenario)
qed

text \<open>
  The claim as stated fails for a fixture three segments below the root: it is counted
  as missing, yet no category count changes and the missing list stays empty.
\<close>

theorem shallow_fixture_counterexample:
  "lacking shallow_tree = [[''minimal'', ''altair'', ''state.ssz_snappy'']]
   \<and> missing_count (check_missing_yamls shallow_tree) = 1
   \<and> missing_by_test_type (check_missing_yamls shallow_tree) = []
   \<and> missing_files (check_missing_yamls shallow_tree) = []"
  by code_simp

section \<open>Properties of the resolution\<close>

subsection \<open>Path decomposition\<close>

lemma takeWhile_tests:
  "''tests'' \<notin> set pre \<Longrightarrow> takeWhile (\<lambda>p. p \<noteq> ''tests'') (pre @ ''tests'' # rest) = pre"
  by (induction pre) auto

text \<open>
  For a path whose first \<^verbatim>\<open>tests\<close> segment is followed by at least four more, the
  function is the chain of its rules on the four segments after that marker.
\<close>

lemma parse_ssz_path_segments:
  assumes "''tests'' \<notin> set pre"
    and "parts = pre @ ''tests'' # preset # fork # test_type # test_suite # tail"
  shows "parse_ssz_path tbl files parts =
     (case transition_pre_rule tbl files (butlast parts) fork test_type (last parts)
             (fork_rule tbl fork test_type (last parts) (fork, [])) of
        Inl e \<Rightarrow> Inl e
      | Inr st1 \<Rightarrow>
          (case transition_blocks_rule tbl files (butlast parts) fork test_type (last parts) st1 of
             Inl e \<Rightarrow> Inl e
           | Inr st2 \<Rightarrow>
               (case light_client_rule files (butlast parts) fork test_type test_suite
                       (if length tail > 1 then tail ! 1 else []) (last parts) st2 of
                  Inl e \<Rightarrow> Inl e
                | Inr st3 \<Rightarrow>
                    (case type_name_of parts (length pre) test_type test_suite (last parts) of
                       Inl e \<Rightarrow> Inl e
                     | Inr type_name \<Rightarrow> Inr ((preset, fst st3, type_name, last parts), snd st3)))))"
proof -
  have idx: "length (takeWhile (\<lambda>p. p \<noteq> ''tests'') parts) = length pre"
    using assms by (simp add: takeWhile_tests)
  have n1: "parts ! (length pre + 1) = preset" and n2: "parts ! (length pre + 2) = fork"
    and n3: "parts ! (length pre + 3) = test_type" and n4: "parts ! (length pre + 4) = test_suite"
    using assms(2) by (simp_all add: nth_append)
  have tc: "(if length parts > length pre + 6 then parts ! (length pre + 6) else [])
             = (if length tail > 1 then tail ! 1 else [])"
    using assms(2) by (simp add: nth_append)
  have len: "length parts = length pre + 5 + length tail"
    using assms(2) by simp
  show ?thesis
    unfolding parse_ssz_path_def Let_def idx n1 n2 n3 n4 tc
    using len by simp
qed

lemma derive_state:
  "filename \<in> set state_filenames \<Longrightarrow> derive_type_from_suite tt ts filename = ''BeaconState''"
  by (simp add: derive_type_from_suite_def)

subsection \<open>Fork tests\<close>

text \<open>
  C3. For every fixture of the category \<^verbatim>\<open>fork\<close> (a single-step fork transition) whose
  file is \<^verbatim>\<open>pre.ssz_snappy\<close>, with directory fork \<open>F\<close> having the predecessor \<open>P\<close> in
  the fork transition table, the resolved fork is \<open>P\<close>.
\<close>

theorem fork_pre_uses_predecessor:
  assumes "''tests'' \<notin> set pre"
    and "parts = pre @ ''tests'' # preset # F # ''fork'' # test_suite # tail"
    and "last parts = ''pre.ssz_snappy''"
    and "map_of tbl F = Some P"
  shows "parse_ssz_path tbl files parts
           = Inr ((preset, P, ''BeaconState'', ''pre.ssz_snappy''), [Fork_test_previous P F])"
  using assms(3,4) unfolding parse_ssz_path_segments [OF assms(1,2)]
  by (simp add: fork_rule_def transition_pre_rule_def transition_blocks_rule_def light_client_rule_def
        type_name_of_def derive_state state_filenames_def)

theorem fork_pre_uses_predecessor_witness:
  "parse_ssz_path [(''altair'', ''phase0''), (''bellatrix'', ''altair'')] (\<lambda>_. Missing)
     [''data'', ''tests'', ''mainnet'', ''bellatrix'', ''fork'', ''fork'', ''pyspec_tests'',
      ''fork_base_state'', ''pre.ssz_snappy'']
     = Inr ((''mainnet'', ''altair'', ''BeaconState'', ''pre.ssz_snappy''),
            [Fork_test_previous ''altair'' ''bellatrix''])"
  using fork_pre_uses_predecessor
          [of "[''data'']" _ "''mainnet''" "''bellatrix''" "''fork''"
              "[''pyspec_tests'', ''fork_base_state'', ''pre.ssz_snappy'']"
              "[(''altair'', ''phase0''), (''bellatrix'', ''altair'')]" "''altair''" "\<lambda>_. Missing"]
  by simp

subsection \<open>The light-client initial snapshot\<close>

text \<open>
  C6. For every light-client fixture named \<^verbatim>\<open>initial_state.ssz_snappy\<close> the resolved fork
  is the directory fork, whatever fork names the test case name embeds and whatever the
  sidecar files hold.
\<close>

theorem initial_state_keeps_directory_fork:
  assumes "''tests'' \<notin> set pre"
    and "parts = pre @ ''tests'' # preset # fork # ''light_client'' # test_suite # tail"
    and "last parts = ''initial_state.ssz_snappy''"
  shows "parse_ssz_path tbl files parts
           = Inr ((preset, fork, ''BeaconState'', ''initial_state.ssz_snappy''), [])"
  using assms(3) unfolding parse_ssz_path_segments [OF assms(1,2)]
  by (simp add: fork_rule_def transition_pre_rule_def transition_blocks_rule_def light_client_rule_def
        slot_rule_def name_rule_def slot_prefixes_def startswith_def
        type_name_of_def derive_state state_filenames_def)

theorem initial_state_keeps_directory_fork_witness:
  "parse_ssz_path [] (\<lambda>_. Missing)
     [''data'', ''tests'', ''minimal'', ''capella'', ''light_client'', ''data_collection'',
      ''pyspec_tests'', ''capella_deneb_fork'', ''initial_state.ssz_snappy'']
     = Inr ((''minimal'', ''capella'', ''BeaconState'', ''initial_state.ssz_snappy''), [])"
  using initial_state_keeps_directory_fork
          [of "[''data'']" _ "''minimal''" "''capella''" "''data_collection''"
              "[''pyspec_tests'', ''capella_deneb_fork'', ''initial_state.ssz_snappy'']" "[]" "\<lambda>_. Missing"]
  by simp

end
